theory Spec2Isabelle
  imports Complex_Main "HOL-Library.Word" "HOL-Library.Log_Nat"
begin

unbundle bit_operations_syntax

section \<open>Conventions of the embedding\<close>

text \<open>
  The development embeds the parts of \<^verbatim>\<open>arduino_part.py\<close> and
  \<^verbatim>\<open>joystick_part.py\<close> that decide the behaviour of the range mapping, the pulse
  translators, the motor-controller write, the joystick decoder and the joystick
  controller.

  \<^item> A Python object is a record of its fields; a method takes the record and returns
    the updated record (and its return value, when it has one).
  \<^item> A raised exception is the left injection of a sum; the right injection is the
    normal return.
  \<^item> Python \<^verbatim>\<open>int\<close> is \<^typ>\<open>int\<close>. Python \<^verbatim>\<open>float\<close> is \<^typ>\<open>real\<close>, and
    a float operation is taken as exact. Facts that depend on that idealisation say so.
    Where the exact result of a computation is what a claim is about (\<^verbatim>\<open>map_range\<close>,
    the throttle translator built on it, and the ramp of the emergency stop), the
    function takes the rounding applied to each float literal and to the result of each
    float operation as a parameter: the identity gives the exact model, \<open>binary64\<close> the
    IEEE double arithmetic of CPython.
  \<^item> \<^verbatim>\<open>print\<close> and \<^verbatim>\<open>logging\<close> calls have no effect on the modelled state and
    are left out.
\<close>

datatype py_error = ZeroDivisionError | IndexError | StructError | BoardError

section \<open>Python numbers\<close>

text \<open>
  Rounding to the nearest integer, a tie going to the even one, and Python's
  \<^verbatim>\<open>round(x, 2)\<close>: the nearest multiple of 0.01, a tie going to the even one.
\<close>

definition round_half_even :: "real \<Rightarrow> int" where
  "round_half_even y =
     (let f = \<lfloor>y\<rfloor>; d = y - of_int f
      in if d < 1 / 2 then f
         else if d > 1 / 2 then f + 1
         else if even f then f else f + 1)"


text \<open>
  Rounding a real number to the nearest IEEE 754 double (53 significant bits, the least
  exponent that of the subnormal numbers, ties to even). \<open>ilog2 x\<close> is the exponent of
  the leading bit of a positive \<open>x\<close>. Numbers of magnitude \<open>2 ^ 1024\<close> and more, which
  a double cannot hold, do not occur below.
\<close>

definition pow2 :: "int \<Rightarrow> real" where
  "pow2 e = (if 0 \<le> e then 2 ^ nat e else 1 / 2 ^ nat (- e))"

definition ilog2 :: "real \<Rightarrow> int" where
  "ilog2 x = (if 1 \<le> x then bitlen \<lfloor>x\<rfloor> - 1 else - bitlen (\<lceil>1 / x\<rceil> - 1))"

definition binary64 :: "real \<Rightarrow> real" where
  "binary64 x =
     (if x = 0 then 0
      else
        let e = max (ilog2 \<bar>x\<bar> - 52) (- 1074)
        in of_int (round_half_even (x / pow2 e)) * pow2 e)"

section \<open>arduino\_part.py\<close>

subsection \<open>map\_range\<close>

text \<open>
  \<^verbatim>\<open>X_range / Y_range\<close> raises when \<^verbatim>\<open>Y_range\<close> is zero, and
  \<^verbatim>\<open>(x - X_min) / XY_ratio\<close> raises when the ratio is zero. \<^verbatim>\<open>// 1\<close> followed by
  \<^verbatim>\<open>int\<close> is the floor. The result of each of the five float operations (two
  differences, two quotients, one sum) passes through \<open>rnd\<close>; a difference of two small
  integers is exact in Python and is its own rounding.
\<close>

definition map_range_r ::
  "(real \<Rightarrow> real) \<Rightarrow> real \<Rightarrow> real \<Rightarrow> real \<Rightarrow> real \<Rightarrow> real \<Rightarrow> py_error + int" where
  "map_range_r rnd x X_min X_max Y_min Y_max =
     (let X_range = rnd (X_max - X_min);
          Y_range = rnd (Y_max - Y_min)
      in if Y_range = 0 then Inl ZeroDivisionError
         else
           let XY_ratio = rnd (X_range / Y_range)
           in if XY_ratio = 0 then Inl ZeroDivisionError
              else Inr \<lfloor>rnd (rnd (rnd (x - X_min) / XY_ratio) + Y_min)\<rfloor>)"

text \<open>The exact model.\<close>

definition map_range :: "real \<Rightarrow> real \<Rightarrow> real \<Rightarrow> real \<Rightarrow> real \<Rightarrow> py_error + int" where
  "map_range = map_range_r (\<lambda>v. v)"

subsection \<open>ArduinoFirmata\<close>

text \<open>
  The board is an external device. Its model records every call of
  \<^verbatim>\<open>analog_write\<close>: \<open>failures\<close> scripts the outcome of the coming calls (\<open>True\<close>: the
  call raises; an exhausted script means success), \<open>calls\<close> counts the calls made and
  \<open>written\<close> lists the (pin, value) pairs that reached the device.
\<close>

record board =
  failures :: "bool list"
  calls :: nat
  written :: "(int \<times> int) list"

definition analog_write :: "board \<Rightarrow> int \<Rightarrow> int \<Rightarrow> (py_error + unit) \<times> board" where
  "analog_write b pin v =
     (case failures b of
        [] \<Rightarrow> (Inr (), b\<lparr>calls := Suc (calls b), written := written b @ [(pin, v)]\<rparr>)
      | f # fs \<Rightarrow>
          if f then (Inl BoardError, b\<lparr>failures := fs, calls := Suc (calls b)\<rparr>)
          else (Inr (), b\<lparr>failures := fs, calls := Suc (calls b),
                          written := written b @ [(pin, v)]\<rparr>))"

record ArduinoFirmata =
  the_board :: board
  servo_pin :: int
  esc_pin :: int

text \<open>
  \<^verbatim>\<open>set_pulse\<close>: the write in the \<^verbatim>\<open>try\<close> block, and the same write again in the
  bare \<^verbatim>\<open>except\<close> block, outside of any handler. The pulse is an integer, so
  \<^verbatim>\<open>int(angle)\<close> is the identity.
\<close>

definition set_pulse :: "ArduinoFirmata \<Rightarrow> int \<Rightarrow> int \<Rightarrow> (py_error + unit) \<times> ArduinoFirmata" where
  "set_pulse a pin angle =
     (case analog_write (the_board a) pin angle of
        (Inr u, b1) \<Rightarrow> (Inr u, a\<lparr>the_board := b1\<rparr>)
      | (Inl e, b1) \<Rightarrow>
          (case analog_write b1 pin angle of
             (r, b2) \<Rightarrow> (r, a\<lparr>the_board := b2\<rparr>)))"

definition set_servo_pulse :: "ArduinoFirmata \<Rightarrow> int \<Rightarrow> (py_error + unit) \<times> ArduinoFirmata" where
  "set_servo_pulse a angle = set_pulse a (servo_pin a) angle"

definition set_esc_pulse :: "ArduinoFirmata \<Rightarrow> int \<Rightarrow> (py_error + unit) \<times> ArduinoFirmata" where
  "set_esc_pulse a angle = set_pulse a (esc_pin a) angle"

subsection \<open>PWMThrottle\<close>

record PWMThrottle =
  max_pulse :: int
  min_pulse :: int
  zero_pulse :: int
  pulse :: int

definition MIN_THROTTLE :: real where "MIN_THROTTLE = - 1"
definition MAX_THROTTLE :: real where "MAX_THROTTLE = 1"

text \<open>
  \<^verbatim>\<open>PWMThrottle.run_threaded\<close>. When \<^verbatim>\<open>map_range\<close> raises, the assignment to
  \<^verbatim>\<open>self.pulse\<close> does not happen and the exception leaves the method.
\<close>

definition throttle_run_threaded_r ::
  "(real \<Rightarrow> real) \<Rightarrow> PWMThrottle \<Rightarrow> real \<Rightarrow> py_error + PWMThrottle" where
  "throttle_run_threaded_r rnd t throttle =
     (if throttle > 0 then
        (case map_range_r rnd throttle 0 MAX_THROTTLE
                (real_of_int (zero_pulse t)) (real_of_int (max_pulse t)) of
           Inl e \<Rightarrow> Inl e
         | Inr p \<Rightarrow> Inr (t\<lparr>pulse := p\<rparr>))
      else
        (case map_range_r rnd throttle MIN_THROTTLE 0
                (real_of_int (min_pulse t)) (real_of_int (zero_pulse t)) of
           Inl e \<Rightarrow> Inl e
         | Inr p \<Rightarrow> Inr (t\<lparr>pulse := p\<rparr>)))"

text \<open>The exact model.\<close>

definition throttle_run_threaded :: "PWMThrottle \<Rightarrow> real \<Rightarrow> py_error + PWMThrottle" where
  "throttle_run_threaded = throttle_run_threaded_r (\<lambda>v. v)"

text \<open>
  Two throttle parts as \<^verbatim>\<open>__init__\<close> leaves them (\<^verbatim>\<open>self.pulse = zero_pulse\<close>): one
  whose reverse range is empty (\<^verbatim>\<open>min_pulse == zero_pulse\<close>), and one with the bounds
  0, 93 and 180.
\<close>

definition no_reverse_throttle :: PWMThrottle where
  "no_reverse_throttle = \<lparr>max_pulse = 105, min_pulse = 90, zero_pulse = 90, pulse = 90\<rparr>"

definition wide_throttle :: PWMThrottle where
  "wide_throttle = \<lparr>max_pulse = 180, min_pulse = 0, zero_pulse = 93, pulse = 93\<rparr>"

section \<open>joystick\_part.py: JoystickController\<close>

text \<open>
  The class constants \<^verbatim>\<open>ES_IDLE = -1\<close> to \<^verbatim>\<open>ES_THROTTLE_NEG_TWO = 3\<close> are the only
  values \<^verbatim>\<open>estop_state\<close> is ever given; \<open>es_code\<close> keeps their numbers for the
  comparison \<^verbatim>\<open>self.estop_state > self.ES_IDLE\<close>.
\<close>

datatype EStopState =
  ES_IDLE | ES_START | ES_THROTTLE_NEG_ONE | ES_THROTTLE_POS_ONE | ES_THROTTLE_NEG_TWO

primrec es_code :: "EStopState \<Rightarrow> int" where
  "es_code ES_IDLE = - 1"
| "es_code ES_START = 0"
| "es_code ES_THROTTLE_NEG_ONE = 1"
| "es_code ES_THROTTLE_POS_ONE = 2"
| "es_code ES_THROTTLE_NEG_TWO = 3"

record JoystickController =
  angle :: real
  throttle :: real
  mode :: string
  last_throttle_axis_val :: real
  throttle_scale :: real
  steering_scale :: real
  throttle_dir :: real
  recording :: bool
  constant_throttle :: bool
  auto_record_on_throttle :: bool
  estop_state :: EStopState
  chaos_monkey_steering :: "real option"
  dead_zone :: real

text \<open>The output of a tick: steering, throttle, mode, recording.\<close>

type_synonym controller_output = "real \<times> real \<times> string \<times> bool"


definition out_throttle :: "controller_output \<Rightarrow> real" where
  "out_throttle out = fst (snd out)"

definition out_mode :: "controller_output \<Rightarrow> string" where
  "out_mode out = fst (snd (snd out))"



definition on_throttle_changes :: "JoystickController \<Rightarrow> JoystickController" where
  "on_throttle_changes s =
     (if auto_record_on_throttle s
      then s\<lparr>recording := (\<bar>throttle s\<bar> > dead_zone s \<and> mode s = ''user'')\<rparr>
      else s)"

definition emergency_stop :: "JoystickController \<Rightarrow> JoystickController" where
  "emergency_stop s =
     s\<lparr>mode := ''user'', recording := False, constant_throttle := False,
       estop_state := ES_START, throttle := 0\<rparr>"

definition set_steering :: "JoystickController \<Rightarrow> real \<Rightarrow> JoystickController" where
  "set_steering s axis_val = s\<lparr>angle := steering_scale s * axis_val\<rparr>"




definition toggle_constant_throttle :: "JoystickController \<Rightarrow> JoystickController" where
  "toggle_constant_throttle s =
     (if constant_throttle s
      then on_throttle_changes (s\<lparr>constant_throttle := False, throttle := 0\<rparr>)
      else on_throttle_changes (s\<lparr>constant_throttle := True, throttle := throttle_scale s\<rparr>))"

definition toggle_mode :: "JoystickController \<Rightarrow> JoystickController" where
  "toggle_mode s =
     (if mode s = ''user'' then s\<lparr>mode := ''local_angle''\<rparr>
      else if mode s = ''local_angle'' then s\<lparr>mode := ''local''\<rparr>
      else s\<lparr>mode := ''user''\<rparr>)"

definition chaos_monkey_on_left :: "JoystickController \<Rightarrow> JoystickController" where
  "chaos_monkey_on_left s = s\<lparr>chaos_monkey_steering := Some (- (2 / 10))\<rparr>"

definition chaos_monkey_on_right :: "JoystickController \<Rightarrow> JoystickController" where
  "chaos_monkey_on_right s = s\<lparr>chaos_monkey_steering := Some (2 / 10)\<rparr>"

definition chaos_monkey_off :: "JoystickController \<Rightarrow> JoystickController" where
  "chaos_monkey_off s = s\<lparr>chaos_monkey_steering := None\<rparr>"

text \<open>
  \<^verbatim>\<open>run_threaded\<close>. Its argument \<^verbatim>\<open>img_arr\<close> is only stored and is left out.
  \<open>after_estop\<close> is the code after the state machine's \<^verbatim>\<open>if\<close> block: the override
  return and the normal return. A state above \<^verbatim>\<open>ES_IDLE\<close> that matched no branch of
  the chain would fall through to it. The literals 0.01 and 0.05, the product
  \<^verbatim>\<open>-1.0 * self.throttle_scale\<close> and the sum \<^verbatim>\<open>self.throttle += 0.05\<close> pass
  through \<open>rnd\<close>.
\<close>

definition after_estop :: "JoystickController \<Rightarrow> controller_output \<times> JoystickController" where
  "after_estop s =
     (case chaos_monkey_steering s of
        Some bias \<Rightarrow> ((bias, throttle s, mode s, False), s)
      | None \<Rightarrow> ((angle s, throttle s, mode s, recording s), s))"

definition run_threaded_r ::
  "(real \<Rightarrow> real) \<Rightarrow> JoystickController \<Rightarrow> controller_output \<times> JoystickController" where
  "run_threaded_r rnd s =
     (if es_code (estop_state s) > es_code ES_IDLE then
        (case estop_state s of
           ES_START \<Rightarrow>
             (let s1 = s\<lparr>estop_state := ES_THROTTLE_NEG_ONE\<rparr>
              in ((0, rnd (- 1 * throttle_scale s1), mode s1, False), s1))
         | ES_THROTTLE_NEG_ONE \<Rightarrow>
             (let s1 = s\<lparr>estop_state := ES_THROTTLE_POS_ONE\<rparr>
              in ((0, rnd (1 / 100), mode s1, False), s1))
         | ES_THROTTLE_POS_ONE \<Rightarrow>
             (let s1 = s\<lparr>estop_state := ES_THROTTLE_NEG_TWO\<rparr>;
                  s2 = s1\<lparr>throttle := rnd (- 1 * throttle_scale s1)\<rparr>
              in ((0, throttle s2, mode s2, False), s2))
         | ES_THROTTLE_NEG_TWO \<Rightarrow>
             (let s1 = s\<lparr>throttle := rnd (throttle s + rnd (5 / 100))\<rparr>;
                  s2 = (if throttle s1 \<ge> 0
                        then s1\<lparr>throttle := 0, estop_state := ES_IDLE\<rparr>
                        else s1)
              in ((0, throttle s2, mode s2, False), s2))
         | ES_IDLE \<Rightarrow> after_estop s)
      else after_estop s)"

text \<open>
  \<open>run_ticks_r rnd n\<close>: \<open>n\<close> consecutive calls of \<^verbatim>\<open>run_threaded\<close>, with their
  outputs.
\<close>

fun run_ticks_r ::
  "(real \<Rightarrow> real) \<Rightarrow> nat \<Rightarrow> JoystickController \<Rightarrow>
     controller_output list \<times> JoystickController" where
  "run_ticks_r rnd 0 s = ([], s)"
| "run_ticks_r rnd (Suc n) s =
     (case run_threaded_r rnd s of
        (out, s1) \<Rightarrow> (case run_ticks_r rnd n s1 of (outs, s2) \<Rightarrow> (out # outs, s2)))"

text \<open>The exact model.\<close>

definition run_threaded :: "JoystickController \<Rightarrow> controller_output \<times> JoystickController" where
  "run_threaded = run_threaded_r (\<lambda>v. v)"

definition run_ticks :: "nat \<Rightarrow> JoystickController \<Rightarrow> controller_output list \<times> JoystickController" where
  "run_ticks = run_ticks_r (\<lambda>v. v)"

text \<open>
  The controller as \<^verbatim>\<open>__init__\<close> leaves it, for the given throttle scale, steering
  scale, throttle direction and auto-record flag.
\<close>

definition new_controller :: "real \<Rightarrow> real \<Rightarrow> real \<Rightarrow> bool \<Rightarrow> JoystickController" where
  "new_controller tscale sscale tdir auto_rec =
     \<lparr>angle = 0, throttle = 0, mode = ''user'', last_throttle_axis_val = 0,
      throttle_scale = tscale, steering_scale = sscale, throttle_dir = tdir,
      recording = False, constant_throttle = False, auto_record_on_throttle = auto_rec,
      estop_state = ES_IDLE, chaos_monkey_steering = None, dead_zone = 0\<rparr>"

section \<open>joystick\_part.py: Joystick\<close>

text \<open>
  \<open>axis_names\<close> and \<open>button_names\<close> are the profile's dictionaries from raw code to
  name; \<open>axis_map\<close> and \<open>button_map\<close> are the lists \<^verbatim>\<open>init\<close> builds, indexed by the
  number an event carries. \<open>jsdev_open\<close> is \<^verbatim>\<open>self.jsdev is not None\<close>.
\<close>

record Joystick =
  axis_states :: "string \<rightharpoonup> real"
  button_states :: "string \<rightharpoonup> int"
  axis_names :: "nat \<rightharpoonup> string"
  button_names :: "nat \<rightharpoonup> string"
  axis_map :: "string list"
  button_map :: "string list"
  jsdev_open :: bool

definition new_joystick :: Joystick where
  "new_joystick =
     \<lparr>axis_states = Map.empty, button_states = Map.empty,
      axis_names = Map.empty, button_names = Map.empty,
      axis_map = [], button_map = [], jsdev_open = False\<rparr>"

definition logitech_joystick :: Joystick where
  "logitech_joystick =
     new_joystick
       \<lparr>axis_names := map_of
          [(0x00, ''left_stick_horz''), (0x01, ''left_stick_vert''),
           (0x03, ''right_stick_horz''), (0x04, ''right_stick_vert''),
           (0x02, ''L2_pressure''), (0x05, ''R2_pressure''),
           (0x10, ''dpad_leftright''), (0x11, ''dpad_up_down'')],
        button_names := map_of
          [(0x13a, ''back''), (0x13b, ''start''), (0x13c, ''Logitech''),
           (0x130, ''A''), (0x131, ''B''), (0x133, ''X''), (0x134, ''Y''),
           (0x136, ''L1''), (0x137, ''R1''),
           (0x13d, ''left_stick_press''), (0x13e, ''right_stick_press'')]\<rparr>"

text \<open>
  The formats \<^verbatim>\<open>'%02x'\<close> and \<^verbatim>\<open>'%03x'\<close>: lower-case hexadecimal digits, padded with
  zeros on the left to the given width.
\<close>

definition hex_digit :: "nat \<Rightarrow> char" where
  "hex_digit d = ''0123456789abcdef'' ! d"

fun hex_digits :: "nat \<Rightarrow> string" where
  "hex_digits n =
     (if n < 16 then [hex_digit n] else hex_digits (n div 16) @ [hex_digit (n mod 16)])"

declare hex_digits.simps [simp del]

definition format_0x :: "nat \<Rightarrow> nat \<Rightarrow> string" where
  "format_0x w n = (let ds = hex_digits n in replicate (w - length ds) CHR ''0'' @ ds)"

text \<open>
  The two loops of \<^verbatim>\<open>init\<close> over the codes the device reports
  (\<^verbatim>\<open>buf[:self.num_axes]\<close> and \<^verbatim>\<open>buf[:self.num_buttons]\<close>). The labels are
  \<^verbatim>\<open>self.axis_names.get(axis, 'unknown(0x%02x)' % axis)\<close> and
  \<^verbatim>\<open>self.button_names.get(btn, 'unknown(0x%03x)' % btn)\<close>.
\<close>

definition axis_label :: "Joystick \<Rightarrow> nat \<Rightarrow> string" where
  "axis_label js axis =
     (case axis_names js axis of
        Some name \<Rightarrow> name
      | None \<Rightarrow> ''unknown(0x'' @ format_0x 2 axis @ '')'')"

definition button_label :: "Joystick \<Rightarrow> nat \<Rightarrow> string" where
  "button_label js btn =
     (case button_names js btn of
        Some name \<Rightarrow> name
      | None \<Rightarrow> ''unknown(0x'' @ format_0x 3 btn @ '')'')"

fun init_axes :: "Joystick \<Rightarrow> nat list \<Rightarrow> Joystick" where
  "init_axes js [] = js"
| "init_axes js (axis # rest) =
     (let axis_name = axis_label js axis
      in init_axes
           (js\<lparr>axis_map := axis_map js @ [axis_name],
               axis_states := (axis_states js)(axis_name \<mapsto> 0)\<rparr>)
           rest)"

fun init_buttons :: "Joystick \<Rightarrow> nat list \<Rightarrow> Joystick" where
  "init_buttons js [] = js"
| "init_buttons js (btn # rest) =
     (let btn_name = button_label js btn
      in init_buttons
           (js\<lparr>button_map := button_map js @ [btn_name],
               button_states := (button_states js)(btn_name \<mapsto> 0)\<rparr>)
           rest)"

text \<open>
  \<^verbatim>\<open>init\<close>. The device is \<open>None\<close> when \<^verbatim>\<open>fcntl\<close> or the device file is missing
  (the method returns \<^verbatim>\<open>False\<close> and leaves \<^verbatim>\<open>jsdev\<close> unset); otherwise it is the
  pair of code lists the two map queries return.
\<close>

definition init :: "Joystick \<Rightarrow> (nat list \<times> nat list) option \<Rightarrow> bool \<times> Joystick" where
  "init js dev =
     (case dev of
        None \<Rightarrow> (False, js)
      | Some (axes, btns) \<Rightarrow>
          (True, init_buttons (init_axes (js\<lparr>jsdev_open := True\<rparr>) axes) btns))"

text \<open>
  \<^verbatim>\<open>struct.unpack('IhBB', evbuf)\<close> on a little-endian host: an unsigned 32-bit time
  stamp, a signed 16-bit value, the type flags and the number. A buffer of another
  length raises.
\<close>

definition ev_time :: "8 word list \<Rightarrow> 32 word" where
  "ev_time evbuf =
     ucast (evbuf ! 0) OR push_bit 8 (ucast (evbuf ! 1))
       OR push_bit 16 (ucast (evbuf ! 2)) OR push_bit 24 (ucast (evbuf ! 3))"

definition ev_value :: "8 word list \<Rightarrow> int" where
  "ev_value evbuf = sint ((ucast (evbuf ! 4) OR push_bit 8 (ucast (evbuf ! 5))) :: 16 word)"

definition ev_type :: "8 word list \<Rightarrow> 8 word" where
  "ev_type evbuf = evbuf ! 6"

definition ev_number :: "8 word list \<Rightarrow> nat" where
  "ev_number evbuf = unat (evbuf ! 7)"

definition unpack_IhBB :: "8 word list \<Rightarrow> py_error + (32 word \<times> int \<times> 8 word \<times> nat)" where
  "unpack_IhBB evbuf =
     (if length evbuf \<noteq> 8 then Inl StructError
      else Inr (ev_time evbuf, ev_value evbuf, ev_type evbuf, ev_number evbuf))"

text \<open>
  \<^verbatim>\<open>poll\<close> returns \<^verbatim>\<open>(button, button_state, axis, axis_val)\<close>. Its argument
  \<open>evbuf\<close> is what \<^verbatim>\<open>self.jsdev.read(8)\<close> returned (the read does not happen when
  \<^verbatim>\<open>jsdev\<close> is unset). \<open>poll_button\<close> and \<open>poll_axis\<close> are its two
  \<^verbatim>\<open>if typev & ...\<close> blocks, run in this order; indexing a list beyond its length
  raises \<^verbatim>\<open>IndexError\<close>, and \<^verbatim>\<open>if button:\<close> tests that the name is not the empty
  string.
\<close>

type_synonym poll_result = "string option \<times> int option \<times> string option \<times> real option"

definition poll_button ::
  "Joystick \<Rightarrow> int \<Rightarrow> 8 word \<Rightarrow> nat \<Rightarrow> (py_error + string option \<times> int option) \<times> Joystick" where
  "poll_button js val typev number =
     (if typev AND 0x01 \<noteq> 0 then
        (if number < length (button_map js) then
           (let button = button_map js ! number
            in if button \<noteq> []
               then (Inr (Some button, Some val),
                     js\<lparr>button_states := (button_states js)(button \<mapsto> val)\<rparr>)
               else (Inr (Some button, None), js))
         else (Inl IndexError, js))
      else (Inr (None, None), js))"

definition poll_axis ::
  "Joystick \<Rightarrow> int \<Rightarrow> 8 word \<Rightarrow> nat \<Rightarrow> (py_error + string option \<times> real option) \<times> Joystick" where
  "poll_axis js val typev number =
     (if typev AND 0x02 \<noteq> 0 then
        (if number < length (axis_map js) then
           (let axis = axis_map js ! number
            in if axis \<noteq> []
               then (let fvalue = real_of_int val / 32767
                     in (Inr (Some axis, Some fvalue),
                         js\<lparr>axis_states := (axis_states js)(axis \<mapsto> fvalue)\<rparr>))
               else (Inr (Some axis, None), js))
         else (Inl IndexError, js))
      else (Inr (None, None), js))"

definition poll :: "Joystick \<Rightarrow> 8 word list \<Rightarrow> (py_error + poll_result) \<times> Joystick" where
  "poll js evbuf =
     (if \<not> jsdev_open js then (Inr (None, None, None, None), js)
      else if evbuf = [] then (Inr (None, None, None, None), js)
      else
        (case unpack_IhBB evbuf of
           Inl e \<Rightarrow> (Inl e, js)
         | Inr (tval, val, typev, number) \<Rightarrow>
             if typev AND 0x80 \<noteq> 0 then (Inr (None, None, None, None), js)
             else
               (case poll_button js val typev number of
                  (Inl e, js1) \<Rightarrow> (Inl e, js1)
                | (Inr (button, button_state), js1) \<Rightarrow>
                    (case poll_axis js1 val typev number of
                       (Inl e, js2) \<Rightarrow> (Inl e, js2)
                     | (Inr (axis, axis_val), js2) \<Rightarrow>
                         (Inr (button, button_state, axis, axis_val), js2)))))"

text \<open>
  A Logitech pad, after \<^verbatim>\<open>init\<close>, whose device reports two axes and two buttons;
  the profile has no name for the second axis code and the second button code.
\<close>

definition small_pad :: Joystick where
  "small_pad = snd (init logitech_joystick (Some ([0x01, 0x09], [0x130, 0x12f])))"

text \<open>A pad whose profile gives its only axis and its only button the empty name.\<close>

definition muted_pad :: Joystick where
  "muted_pad =
     snd (init (new_joystick\<lparr>axis_names := [0x00 \<mapsto> []], button_names := [0x130 \<mapsto> []]\<rparr>)
            (Some ([0x00], [0x130])))"

text \<open>The events used below: button 5 pressed, button 1 pressed, and both at index 0.\<close>

definition button5_pressed :: "8 word list" where
  "button5_pressed = [0, 0, 0, 0, 1, 0, 0x01, 5]"

definition button1_pressed :: "8 word list" where
  "button1_pressed = [0, 0, 0, 0, 1, 0, 0x01, 1]"

definition both0_event :: "8 word list" where
  "both0_event = [0, 0, 0, 0, 1, 0, 0x03, 0]"

definition init_event :: "8 word list" where
  "init_event = [0, 0, 0, 0, 1, 0, 0x81, 0]"

text \<open>
  Controllers reached through the methods above: just after an emergency stop, with
  throttle scale 0.5 and with throttle scale 0.25; and one with throttle scale 0.123 and
  dead zone 0.125 whose stick is pushed fully forward.
\<close>

definition estop_demo :: JoystickController where
  "estop_demo = emergency_stop (new_controller (1 / 2) 1 (- 1) True)"

definition quarter_demo :: JoystickController where
  "quarter_demo = emergency_stop (new_controller (1 / 4) 1 (- 1) True)"


text \<open>
  A controller in constant-throttle mode with throttle scale 0.8, and an idle controller
  whose steering is overridden to the left.
\<close>

definition const_demo :: JoystickController where
  "const_demo = toggle_constant_throttle (new_controller (4 / 5) 1 (- 1) True)"

definition override_demo :: JoystickController where
  "override_demo = chaos_monkey_on_left (set_steering (new_controller (4 / 5) 1 (- 1) True) (1 / 2))"

text \<open>A board whose next two writes fail, behind a controller object.\<close>

definition flaky_arduino :: ArduinoFirmata where
  "flaky_arduino =
     \<lparr>the_board = \<lparr>failures = [True, True], calls = 0, written = []\<rparr>,
      servo_pin = 6, esc_pin = 5\<rparr>"

section \<open>Rounding to a double\<close>

text \<open>
  \<open>ilog2\<close> is the exponent of the leading bit: a positive \<open>x\<close> is at least
  \<open>pow2 (ilog2 x)\<close> and less than twice that, so \<open>binary64\<close> rounds a number in the
  normal range to a multiple of \<open>pow2 (ilog2 x - 52)\<close>, that is to 53 significant bits.
\<close>

lemma bitlen_real_bounds:
  assumes "1 \<le> n"
  shows "1 \<le> bitlen n"
    and "(2::real) ^ nat (bitlen n - 1) \<le> real_of_int n"
    and "real_of_int n + 1 \<le> 2 ^ nat (bitlen n)"
proof -
  from assms have bb: "2 ^ nat (bitlen n - 1) \<le> n" "n < 2 ^ nat (bitlen n)"
    using bitlen_bounds [of n] by simp_all
  show "1 \<le> bitlen n"
  proof (rule ccontr)
    assume "\<not> 1 \<le> bitlen n"
    then have "nat (bitlen n) = 0" by simp
    with bb(2) assms show False by simp
  qed
  from bb(1) have "real_of_int (2 ^ nat (bitlen n - 1)) \<le> real_of_int n"
    by (rule of_int_le_iff [THEN iffD2])
  then show "(2::real) ^ nat (bitlen n - 1) \<le> real_of_int n"
    by simp
  from bb(2) have "n + 1 \<le> 2 ^ nat (bitlen n)"
    by simp
  then have "real_of_int (n + 1) \<le> real_of_int (2 ^ nat (bitlen n))"
    by (rule of_int_le_iff [THEN iffD2])
  then show "real_of_int n + 1 \<le> 2 ^ nat (bitlen n)"
    by simp
qed

lemma ilog2_bounds:
  assumes "0 < x"
  shows "pow2 (ilog2 x) \<le> x \<and> x < 2 * pow2 (ilog2 x)"
proof (cases "1 \<le> x")
  case True
  define n where "n = \<lfloor>x\<rfloor>"
  have n1: "1 \<le> n" using True by (simp add: n_def)
  note b = bitlen_real_bounds [OF n1]
  have il: "ilog2 x = bitlen n - 1"
    using True by (simp add: ilog2_def n_def)
  have p: "pow2 (bitlen n - 1) = 2 ^ nat (bitlen n - 1)"
    using b(1) by (simp add: pow2_def)
  have "nat (bitlen n) = Suc (nat (bitlen n - 1))"
    using b(1) by simp
  then have p2: "(2::real) ^ nat (bitlen n) = 2 * 2 ^ nat (bitlen n - 1)"
    by simp
  have "real_of_int n \<le> x" and "x < real_of_int n + 1"
    by (simp_all add: n_def)
  with b(2,3) show ?thesis
    unfolding il p using p2 by linarith
next
  case False
  define y where "y = 1 / x"
  define n where "n = \<lceil>y\<rceil> - 1"
  have y1: "1 < y" using False assms by (simp add: y_def)
  have ny: "real_of_int n < y" "y \<le> real_of_int n + 1"
    unfolding n_def by linarith+
  have n1: "1 \<le> n" using y1 ny(2) by linarith
  note b = bitlen_real_bounds [OF n1]
  have il: "ilog2 x = - bitlen n"
    using False by (simp add: ilog2_def n_def y_def)
  have p: "pow2 (- bitlen n) = 1 / 2 ^ nat (bitlen n)"
    using b(1) by (simp add: pow2_def)
  have "nat (bitlen n) = Suc (nat (bitlen n - 1))"
    using b(1) by simp
  then have p2: "(2::real) ^ nat (bitlen n) = 2 * 2 ^ nat (bitlen n - 1)"
    by simp
  have xy: "x = 1 / y" using assms by (simp add: y_def)
  have yhi: "y \<le> 2 ^ nat (bitlen n)" and ylo: "2 ^ nat (bitlen n - 1) < y"
    using ny b(2,3) by linarith+
  have lo: "1 / 2 ^ nat (bitlen n) \<le> 1 / y"
    using yhi y1 by (intro divide_left_mono) simp_all
  have "1 / y < 1 / 2 ^ nat (bitlen n - 1)"
    using ylo y1 by (intro divide_strict_left_mono mult_pos_pos) simp_all
  also have "1 / (2::real) ^ nat (bitlen n - 1) = 2 * (1 / 2 ^ nat (bitlen n))"
    by (simp add: p2)
  finally have hi: "1 / y < 2 * (1 / 2 ^ nat (bitlen n))" .
  from lo hi have "pow2 (- bitlen n) \<le> 1 / y \<and> 1 / y < 2 * pow2 (- bitlen n)"
    unfolding p by simp
  then have "pow2 (- bitlen n) \<le> x \<and> x < 2 * pow2 (- bitlen n)"
    by (simp only: xy)
  then show ?thesis
    by (simp only: il)
qed

lemma binary64_0: "binary64 0 = 0"
  by (simp add: binary64_def)

text \<open>
  Some values: small integers are their own doubles; the double nearest to 0.1; the sum
  of the doubles nearest to 0.1 and 0.2, which CPython prints as
  \<^verbatim>\<open>0.30000000000000004\<close>; a tie, which goes to the even neighbour. The last three are
  the steps of \<open>1 / (1 / 93)\<close>, whose result is below 93.
\<close>

lemma binary64_samples:
  "binary64 1 = 1"
  "binary64 93 = 93"
  "binary64 (- 1) = - 1"
  "binary64 (1 / 10) = 3602879701896397 / 36028797018963968"
  "binary64 (binary64 (1 / 10) + binary64 (2 / 10)) = 1351079888211149 / 4503599627370496"
  "binary64 (2 ^ 53 + 1) = 2 ^ 53"
  "binary64 (1 / 93) = 3099251356470019 / 288230376151711744"
  "binary64 (1 / (3099251356470019 / 288230376151711744)) = 6544293208522751 / 70368744177664"
  "(6544293208522751 / 70368744177664 :: real) < 93"
  by code_simp+

section \<open>The range mapping\<close>

lemma map_range_exact:
  "map_range x X_min X_max Y_min Y_max =
     (let X_range = X_max - X_min;
          Y_range = Y_max - Y_min
      in if Y_range = 0 then Inl ZeroDivisionError
         else
           let XY_ratio = X_range / Y_range
           in if XY_ratio = 0 then Inl ZeroDivisionError
              else Inr \<lfloor>(x - X_min) / XY_ratio + Y_min\<rfloor>)"
  by (simp add: map_range_def map_range_r_def)

lemma throttle_run_threaded_exact:
  "throttle_run_threaded t thr =
     (if thr > 0 then
        (case map_range thr 0 MAX_THROTTLE (real_of_int (zero_pulse t)) (real_of_int (max_pulse t)) of
           Inl e \<Rightarrow> Inl e
         | Inr p \<Rightarrow> Inr (t\<lparr>pulse := p\<rparr>))
      else
        (case map_range thr MIN_THROTTLE 0 (real_of_int (min_pulse t)) (real_of_int (zero_pulse t)) of
           Inl e \<Rightarrow> Inl e
         | Inr p \<Rightarrow> Inr (t\<lparr>pulse := p\<rparr>)))"
  by (simp add: throttle_run_threaded_def throttle_run_threaded_r_def map_range_def)

lemma map_range_raises_iff:
  "map_range x X_min X_max Y_min Y_max = Inl ZeroDivisionError \<longleftrightarrow>
     Y_min = Y_max \<or> X_min = X_max"
  by (auto simp: map_range_exact Let_def)

text \<open>
  Claim C10. Whatever \<open>x\<close>, \<open>x_min\<close> and \<open>x_max\<close> are, also with a non-degenerate
  input range \<open>x_min \<noteq> x_max\<close>: when \<open>y_min = y_max\<close> the call raises
  \<^verbatim>\<open>ZeroDivisionError\<close>, because the ratio \<^verbatim>\<open>X_range / Y_range\<close> is computed first.
  This holds in the exact model and in double arithmetic.
\<close>

theorem map_range_equal_Y_raises:
  assumes "X_min \<noteq> X_max" and "Y_min = Y_max"
  shows "map_range x X_min X_max Y_min Y_max = Inl ZeroDivisionError \<and>
         map_range_r binary64 x X_min X_max Y_min Y_max = Inl ZeroDivisionError"
  using assms by (simp add: map_range_exact map_range_r_def binary64_0)

theorem map_range_equal_Y_raises_witness:
  "(- 1 :: real) \<noteq> 1 \<and> (90 :: real) = 90 \<and>
   map_range 0 (- 1) 1 90 90 = Inl ZeroDivisionError \<and>
   map_range_r binary64 0 (- 1) 1 90 90 = Inl ZeroDivisionError"
  using map_range_equal_Y_raises [of "- 1" 1 90 90 0] by simp

subsection \<open>The value of a non-degenerate call\<close>









text \<open>
  In double arithmetic the upper end point can be missed by one, also with integer
  bounds: the quotient \<open>2 / (2 / 93)\<close> is rounded to a double below 93 and then floored.
\<close>

lemma map_range_double_endpoint:
  "map_range_r binary64 1 (- 1) 1 0 93 = Inr 92"
  by code_simp

section \<open>The motor-controller write\<close>

lemma analog_write_cases:
  "analog_write b pin v =
     (if take 1 (failures b) = [True]
      then (Inl BoardError, b\<lparr>failures := tl (failures b), calls := Suc (calls b)\<rparr>)
      else (Inr (), b\<lparr>failures := tl (failures b), calls := Suc (calls b),
                      written := written b @ [(pin, v)]\<rparr>))"
  by (cases "failures b") (auto simp: analog_write_def)

text \<open>
  Claim C5, as stated, fails: when the board rejects the write and the retry, the retry's
  exception leaves \<^verbatim>\<open>set_pulse\<close>, and so \<^verbatim>\<open>set_servo_pulse\<close> and
  \<^verbatim>\<open>set_esc_pulse\<close>. Nothing reaches the device.
\<close>

theorem set_pulse_second_failure_escapes:
  "failures (the_board flaky_arduino) = [True, True] \<and>
   fst (set_pulse flaky_arduino 5 90) = Inl BoardError \<and>
   fst (set_servo_pulse flaky_arduino 90) = Inl BoardError \<and>
   fst (set_esc_pulse flaky_arduino 90) = Inl BoardError \<and>
   calls (the_board (snd (set_pulse flaky_arduino 5 90))) = 2 \<and>
   written (the_board (snd (set_pulse flaky_arduino 5 90))) = []"
  by (simp add: flaky_arduino_def set_pulse_def set_servo_pulse_def set_esc_pulse_def
      analog_write_def)

text \<open>
  Claim C5, amended. For every pulse value and every board: \<^verbatim>\<open>set_pulse\<close> writes once
  when the first write succeeds; when it fails, \<^verbatim>\<open>set_pulse\<close> retries the write exactly
  once. No exception leaves \<^verbatim>\<open>set_pulse\<close> unless the retry fails as well; then the
  retry's exception propagates to the caller and the value is not written.
\<close>

theorem set_pulse_retries_once:
  "fst (set_pulse a pin v) =
     (if take 2 (failures (the_board a)) = [True, True] then Inl BoardError else Inr ()) \<and>
   calls (the_board (snd (set_pulse a pin v))) =
     calls (the_board a) + (if take 1 (failures (the_board a)) = [True] then 2 else 1) \<and>
   written (the_board (snd (set_pulse a pin v))) =
     written (the_board a) @
       (if take 2 (failures (the_board a)) = [True, True] then [] else [(pin, v)])"
proof (cases "failures (the_board a)")
  case Nil
  then show ?thesis
    by (simp add: set_pulse_def analog_write_def)
next
  case (Cons f fs)
  then show ?thesis
    by (cases fs) (auto simp add: set_pulse_def analog_write_def)
qed

text \<open>The theorem at a board that rejects the first write and accepts the retry.\<close>

theorem set_pulse_retries_once_witness:
  "fst (set_pulse (flaky_arduino\<lparr>the_board := (the_board flaky_arduino)\<lparr>failures := [True]\<rparr>\<rparr>) 5 90)
     = Inr () \<and>
   calls (the_board (snd (set_pulse
       (flaky_arduino\<lparr>the_board := (the_board flaky_arduino)\<lparr>failures := [True]\<rparr>\<rparr>) 5 90))) = 2 \<and>
   written (the_board (snd (set_pulse
       (flaky_arduino\<lparr>the_board := (the_board flaky_arduino)\<lparr>failures := [True]\<rparr>\<rparr>) 5 90)))
     = [(5, 90)]"
  using set_pulse_retries_once
    [of "flaky_arduino\<lparr>the_board := (the_board flaky_arduino)\<lparr>failures := [True]\<rparr>\<rparr>" 5 90]
  by (simp add: flaky_arduino_def)

section \<open>The joystick decoder\<close>

lemma small_pad_maps:
  "button_map small_pad = [''A'', ''unknown(0x12f)'']"
  "axis_map small_pad = [''left_stick_vert'', ''unknown(0x09)'']"
  "jsdev_open small_pad"
  "button_states small_pad ''unknown(0x12f)'' = Some 0"
  by (simp_all add: small_pad_def init_def logitech_joystick_def new_joystick_def Let_def
      button_label_def axis_label_def format_0x_def hex_digits.simps hex_digit_def)

lemma muted_pad_maps:
  "button_map muted_pad = [[]]" "axis_map muted_pad = [[]]" "jsdev_open muted_pad"
  by (simp_all add: muted_pad_def init_def new_joystick_def Let_def
      button_label_def axis_label_def)

text \<open>
  Claim C8. For every 8-byte input record with bit 0x80 of the type flags set, whatever its
  value and number: \<^verbatim>\<open>poll\<close> returns no button, no button state, no axis and no axis
  value, and leaves the joystick, with its stored axis and button states, as it was.
\<close>

theorem poll_init_event_discarded:
  assumes "length evbuf = 8" and "ev_type evbuf AND 0x80 \<noteq> 0"
  shows "poll js evbuf = (Inr (None, None, None, None), js)"
  using assms by (auto simp: poll_def unpack_IhBB_def)

theorem poll_init_event_discarded_witness:
  "length init_event = 8 \<and> ev_type init_event AND 0x80 \<noteq> 0 \<and>
   poll small_pad init_event = (Inr (None, None, None, None), small_pad)"
  using poll_init_event_discarded [of init_event small_pad]
  by (simp add: init_event_def ev_type_def)

subsection \<open>Events that carry no init flag\<close>

lemma poll_decoded:
  assumes "jsdev_open js" and "length evbuf = 8" and "ev_type evbuf AND 0x80 = 0"
  shows "poll js evbuf =
     (case poll_button js (ev_value evbuf) (ev_type evbuf) (ev_number evbuf) of
        (Inl e, js1) \<Rightarrow> (Inl e, js1)
      | (Inr (button, button_state), js1) \<Rightarrow>
          (case poll_axis js1 (ev_value evbuf) (ev_type evbuf) (ev_number evbuf) of
             (Inl e, js2) \<Rightarrow> (Inl e, js2)
           | (Inr (axis, axis_val), js2) \<Rightarrow> (Inr (button, button_state, axis, axis_val), js2)))"
  using assms by (auto simp: poll_def unpack_IhBB_def)

text \<open>The lists \<^verbatim>\<open>init\<close> builds hold one label per reported code.\<close>

lemma init_buttons_map:
  "button_map (init_buttons js btns) = button_map js @ map (button_label js) btns"
proof (induction btns arbitrary: js)
  case Nil
  show ?case by simp
next
  case (Cons btn btns)
  let ?js1 = "js\<lparr>button_map := button_map js @ [button_label js btn],
                  button_states := (button_states js)(button_label js btn \<mapsto> 0)\<rparr>"
  have same: "button_label ?js1 = button_label js"
    by (rule ext) (simp add: button_label_def)
  have "button_map (init_buttons js (btn # btns)) = button_map (init_buttons ?js1 btns)"
    by (simp add: Let_def)
  also have "\<dots> = button_map ?js1 @ map (button_label ?js1) btns"
    by (rule Cons.IH)
  also have "\<dots> = button_map js @ map (button_label js) (btn # btns)"
    by (simp add: same)
  finally show ?case .
qed

lemma init_axes_map:
  "axis_map (init_axes js axes) = axis_map js @ map (axis_label js) axes"
proof (induction axes arbitrary: js)
  case Nil
  show ?case by simp
next
  case (Cons axis axes)
  let ?js1 = "js\<lparr>axis_map := axis_map js @ [axis_label js axis],
                  axis_states := (axis_states js)(axis_label js axis \<mapsto> 0)\<rparr>"
  have same: "axis_label ?js1 = axis_label js"
    by (rule ext) (simp add: axis_label_def)
  have "axis_map (init_axes js (axis # axes)) = axis_map (init_axes ?js1 axes)"
    by (simp add: Let_def)
  also have "\<dots> = axis_map ?js1 @ map (axis_label ?js1) axes"
    by (rule Cons.IH)
  also have "\<dots> = axis_map js @ map (axis_label js) (axis # axes)"
    by (simp add: same)
  finally show ?case .
qed

text \<open>A code the profile does not name gets a label that is not empty.\<close>

lemma unknown_label_nonempty:
  "button_names js btn = None \<Longrightarrow> button_label js btn \<noteq> []"
  "axis_names js axis = None \<Longrightarrow> axis_label js axis \<noteq> []"
  by (simp_all add: button_label_def axis_label_def)

text \<open>
  Claim C7, as stated, fails twice on a Logitech pad with two buttons. A button record whose
  number (5) is beyond the button map makes \<^verbatim>\<open>poll\<close> raise \<^verbatim>\<open>IndexError\<close>. A button
  record whose number (1) stands for a raw code the profile has no name for is reported,
  under the label \<^verbatim>\<open>unknown(0x12f)\<close>, and its state is stored.
\<close>

theorem poll_unmapped_index:
  "jsdev_open small_pad \<and>
   button_map small_pad = [''A'', ''unknown(0x12f)''] \<and>
   ev_type button5_pressed = 0x01 \<and> ev_number button5_pressed = 5 \<and>
   fst (poll small_pad button5_pressed) = Inl IndexError \<and>
   button_names logitech_joystick 0x12f = None \<and>
   ev_type button1_pressed = 0x01 \<and> ev_number button1_pressed = 1 \<and>
   fst (poll small_pad button1_pressed) = Inr (Some ''unknown(0x12f)'', Some 1, None, None) \<and>
   button_states small_pad ''unknown(0x12f)'' = Some 0 \<and>
   button_states (snd (poll small_pad button1_pressed)) ''unknown(0x12f)'' = Some 1"
  by (simp add: poll_def unpack_IhBB_def poll_button_def poll_axis_def small_pad_maps
      button5_pressed_def button1_pressed_def ev_type_def ev_number_def ev_value_def
      logitech_joystick_def new_joystick_def Let_def)

text \<open>
  Claim C7, amended. For every 8-byte record without the init flag, read from an open
  device, whose number lies within the button map when it is a button event (flag 0x01) and
  within the axis map when it is an axis event (flag 0x02): \<^verbatim>\<open>poll\<close> does not fail. For
  each of the two components it produces no event, and leaves that component's stored
  states unchanged, exactly when the flag is clear or the name stored at that number is
  empty; otherwise (also for a label \<^verbatim>\<open>unknown(0x..)\<close>) it reports the value and stores
  it under that name.
\<close>

theorem poll_within_maps:
  assumes "jsdev_open js" and "length evbuf = 8" and "ev_type evbuf AND 0x80 = 0"
    and "ev_type evbuf AND 0x01 \<noteq> 0 \<longrightarrow> ev_number evbuf < length (button_map js)"
    and "ev_type evbuf AND 0x02 \<noteq> 0 \<longrightarrow> ev_number evbuf < length (axis_map js)"
  shows "\<exists>button button_state axis axis_val js'.
      poll js evbuf = (Inr (button, button_state, axis, axis_val), js') \<and>
      (if ev_type evbuf AND 0x01 \<noteq> 0 \<and> button_map js ! ev_number evbuf \<noteq> []
       then button_state = Some (ev_value evbuf) \<and>
            button_states js' =
              (button_states js)(button_map js ! ev_number evbuf \<mapsto> ev_value evbuf)
       else button_state = None \<and> button_states js' = button_states js) \<and>
      (if ev_type evbuf AND 0x02 \<noteq> 0 \<and> axis_map js ! ev_number evbuf \<noteq> []
       then axis_val = Some (real_of_int (ev_value evbuf) / 32767) \<and>
            axis_states js' =
              (axis_states js)(axis_map js ! ev_number evbuf \<mapsto> real_of_int (ev_value evbuf) / 32767)
       else axis_val = None \<and> axis_states js' = axis_states js)"
  using assms by (auto simp: poll_decoded poll_button_def poll_axis_def Let_def)

text \<open>
  The theorem at a pad whose only button and only axis have the empty name, for a record
  that is a button event and an axis event at once.
\<close>

theorem poll_within_maps_witness:
  "jsdev_open muted_pad \<and> length both0_event = 8 \<and> ev_type both0_event AND 0x80 = 0 \<and>
   ev_type both0_event AND 0x01 \<noteq> 0 \<and> ev_number both0_event < length (button_map muted_pad) \<and>
   ev_type both0_event AND 0x02 \<noteq> 0 \<and> ev_number both0_event < length (axis_map muted_pad) \<and>
   button_map muted_pad ! ev_number both0_event = [] \<and>
   axis_map muted_pad ! ev_number both0_event = [] \<and>
   (\<exists>button axis js'. poll muted_pad both0_event = (Inr (button, None, axis, None), js') \<and>
      button_states js' = button_states muted_pad \<and> axis_states js' = axis_states muted_pad)"
  using poll_within_maps [of muted_pad both0_event]
  by (simp add: muted_pad_maps both0_event_def ev_type_def ev_number_def)

section \<open>The controller: mode, throttle scale and output\<close>

lemma run_threaded_exact:
  "run_threaded s =
     (if es_code (estop_state s) > es_code ES_IDLE then
        (case estop_state s of
           ES_START \<Rightarrow>
             (let s1 = s\<lparr>estop_state := ES_THROTTLE_NEG_ONE\<rparr>
              in ((0, - 1 * throttle_scale s1, mode s1, False), s1))
         | ES_THROTTLE_NEG_ONE \<Rightarrow>
             (let s1 = s\<lparr>estop_state := ES_THROTTLE_POS_ONE\<rparr>
              in ((0, 1 / 100, mode s1, False), s1))
         | ES_THROTTLE_POS_ONE \<Rightarrow>
             (let s1 = s\<lparr>estop_state := ES_THROTTLE_NEG_TWO\<rparr>;
                  s2 = s1\<lparr>throttle := - 1 * throttle_scale s1\<rparr>
              in ((0, throttle s2, mode s2, False), s2))
         | ES_THROTTLE_NEG_TWO \<Rightarrow>
             (let s1 = s\<lparr>throttle := throttle s + 5 / 100\<rparr>;
                  s2 = (if throttle s1 \<ge> 0
                        then s1\<lparr>throttle := 0, estop_state := ES_IDLE\<rparr>
                        else s1)
              in ((0, throttle s2, mode s2, False), s2))
         | ES_IDLE \<Rightarrow> after_estop s)
      else after_estop s)"
  unfolding run_threaded_def run_threaded_r_def ..

lemma run_ticks_0 [simp]: "run_ticks 0 s = ([], s)"
  by (simp add: run_ticks_def)

lemma run_ticks_Suc [simp]:
  "run_ticks (Suc n) s =
     (case run_threaded s of
        (out, s1) \<Rightarrow> (case run_ticks n s1 of (outs, s2) \<Rightarrow> (out # outs, s2)))"
  by (simp add: run_ticks_def run_threaded_def)

text \<open>
  Claim C9. \<^verbatim>\<open>toggle_mode\<close> takes \<^verbatim>\<open>user\<close> to \<^verbatim>\<open>local_angle\<close>, \<^verbatim>\<open>local_angle\<close> to
  \<^verbatim>\<open>local\<close> and \<^verbatim>\<open>local\<close> to \<^verbatim>\<open>user\<close>, and changes nothing but the mode; so from
  each of the three modes, three consecutive calls return the controller, and with it the
  mode, to where it was.
\<close>

theorem toggle_mode_cycle:
  assumes "mode s \<in> {''user'', ''local_angle'', ''local''}"
  shows "toggle_mode (toggle_mode (toggle_mode s)) = s \<and>
     mode (toggle_mode (toggle_mode (toggle_mode s))) = mode s \<and>
     toggle_mode (s\<lparr>mode := ''user''\<rparr>) = s\<lparr>mode := ''local_angle''\<rparr> \<and>
     toggle_mode (s\<lparr>mode := ''local_angle''\<rparr>) = s\<lparr>mode := ''local''\<rparr> \<and>
     toggle_mode (s\<lparr>mode := ''local''\<rparr>) = s\<lparr>mode := ''user''\<rparr>"
  using assms by (auto simp: toggle_mode_def)

theorem toggle_mode_cycle_witness:
  "mode const_demo \<in> {''user'', ''local_angle'', ''local''} \<and>
   mode (toggle_mode const_demo) = ''local_angle'' \<and>
   mode (toggle_mode (toggle_mode const_demo)) = ''local'' \<and>
   toggle_mode (toggle_mode (toggle_mode const_demo)) = const_demo"
  using toggle_mode_cycle [of const_demo]
  by (simp add: const_demo_def new_controller_def toggle_constant_throttle_def
      on_throttle_changes_def toggle_mode_def)

subsection \<open>Changing the throttle scale\<close>








subsection \<open>The output of a tick\<close>

text \<open>
  Claim C2. For every controller state, the output of \<^verbatim>\<open>run_threaded\<close> follows the
  precedence: (1) when the emergency-stop state is not idle, it is the state machine's
  output (steering 0, the throttle of the current phase, the mode, recording false), and
  neither the stored steering nor the override bias has any influence on it; (2) else,
  with an override bias set, it is (bias, throttle, mode, false); (3) else it is
  (steering, throttle, mode, recording). This holds whatever the rounding of the float
  operations is, so in the exact model and in double arithmetic.
\<close>

theorem run_threaded_precedence:
  "fst (run_threaded_r rnd s) =
     (if estop_state s \<noteq> ES_IDLE then
        (0,
         (case estop_state s of
            ES_START \<Rightarrow> rnd (- throttle_scale s)
          | ES_THROTTLE_NEG_ONE \<Rightarrow> rnd (1 / 100)
          | ES_THROTTLE_POS_ONE \<Rightarrow> rnd (- throttle_scale s)
          | _ \<Rightarrow> if rnd (throttle s + rnd (5 / 100)) \<ge> 0 then 0
                 else rnd (throttle s + rnd (5 / 100))),
         mode s, False)
      else
        (case chaos_monkey_steering s of
           Some bias \<Rightarrow> (bias, throttle s, mode s, False)
         | None \<Rightarrow> (angle s, throttle s, mode s, recording s))) \<and>
   (\<forall>a c. estop_state s \<noteq> ES_IDLE \<longrightarrow>
      fst (run_threaded_r rnd (s\<lparr>angle := a, chaos_monkey_steering := c\<rparr>))
        = fst (run_threaded_r rnd s))"
  by (cases "estop_state s")
    (auto simp: run_threaded_r_def after_estop_def Let_def split: option.splits)

text \<open>
  The theorem just after an emergency stop, and at an idle controller with the steering
  overridden to the left.
\<close>

theorem run_threaded_precedence_witness:
  "estop_state estop_demo \<noteq> ES_IDLE \<and>
   fst (run_threaded estop_demo) = (0, - (1 / 2), ''user'', False) \<and>
   fst (run_threaded (estop_demo\<lparr>angle := 1, chaos_monkey_steering := Some (1 / 5)\<rparr>))
     = fst (run_threaded estop_demo) \<and>
   estop_state override_demo = ES_IDLE \<and>
   angle override_demo = 1 / 2 \<and>
   fst (run_threaded override_demo) = (- (1 / 5), 0, ''user'', False)"
proof -
  have e: "estop_state estop_demo = ES_START" "throttle_scale estop_demo = 1 / 2"
    "mode estop_demo = ''user''"
    by (simp_all add: estop_demo_def emergency_stop_def new_controller_def)
  have o: "estop_state override_demo = ES_IDLE" "angle override_demo = 1 / 2"
    "chaos_monkey_steering override_demo = Some (- (1 / 5))" "throttle override_demo = 0"
    "mode override_demo = ''user''"
    by (simp_all add: override_demo_def chaos_monkey_on_left_def set_steering_def
        new_controller_def)
  from run_threaded_precedence [of "\<lambda>v. v" estop_demo]
    run_threaded_precedence [of "\<lambda>v. v" override_demo]
  show ?thesis
    by (simp add: e o run_threaded_def)
qed

section \<open>The emergency stop\<close>











subsection \<open>The ramp in double arithmetic\<close>

lemma run_ticks_r_snd_Suc:
  "snd (run_ticks_r rnd (Suc n) s) = snd (run_ticks_r rnd n (snd (run_threaded_r rnd s)))"
  by (simp split: prod.splits)

lemma run_ticks_r_snd_last:
  "snd (run_ticks_r rnd (Suc n) s) = snd (run_threaded_r rnd (snd (run_ticks_r rnd n s)))"
proof (induction n arbitrary: s)
  case 0
  show ?case by (simp split: prod.splits)
next
  case (Suc n)
  have "snd (run_ticks_r rnd (Suc (Suc n)) s)
      = snd (run_ticks_r rnd (Suc n) (snd (run_threaded_r rnd s)))"
    by (rule run_ticks_r_snd_Suc)
  also have "\<dots> = snd (run_threaded_r rnd (snd (run_ticks_r rnd n (snd (run_threaded_r rnd s)))))"
    by (rule Suc.IH)
  also have "\<dots> = snd (run_threaded_r rnd (snd (run_ticks_r rnd (Suc n) s)))"
    by (simp only: run_ticks_r_snd_Suc)
  finally show ?case .
qed

lemma estop_three_ticks_r:
  assumes "estop_state s = ES_START"
  shows "snd (run_ticks_r rnd 3 s) =
     s\<lparr>estop_state := ES_THROTTLE_NEG_TWO, throttle := rnd (- throttle_scale s)\<rparr>"
  using assms by (simp add: eval_nat_numeral run_threaded_r_def Let_def)

lemma ramp_tick_r:
  assumes "estop_state s = ES_THROTTLE_NEG_TWO" and "rnd (throttle s + rnd (5 / 100)) = b"
  shows "snd (run_threaded_r rnd s) =
     (if 0 \<le> b then s\<lparr>throttle := 0, estop_state := ES_IDLE\<rparr> else s\<lparr>throttle := b\<rparr>)"
  using assms by (simp add: run_threaded_r_def Let_def)

text \<open>
  The sums of the ramp in double arithmetic, from \<open>-0.5\<close> (one step) and from \<open>-0.25\<close>.
  Five steps from \<open>-0.25\<close> end just below zero, so a sixth is needed.
\<close>

lemma double_ramp_values:
  "binary64 (- (1 / 4)) = - (1 / 4)"
  "binary64 (- (1 / 4) + binary64 (5 / 100)) = - (3602879701896397 / 18014398509481984)"
  "binary64 (- (3602879701896397 / 18014398509481984) + binary64 (5 / 100))
     = - (1351079888211149 / 9007199254740992)"
  "binary64 (- (1351079888211149 / 9007199254740992) + binary64 (5 / 100))
     = - (7205759403792795 / 72057594037927936)"
  "binary64 (- (7205759403792795 / 72057594037927936) + binary64 (5 / 100))
     = - (1801439850948199 / 36028797018963968)"
  "binary64 (- (1801439850948199 / 36028797018963968) + binary64 (5 / 100))
     = - (1 / 72057594037927936)"
  "binary64 (- (1 / 72057594037927936) + binary64 (5 / 100))
     = 900719925474099 / 18014398509481984"
  "binary64 (- (1 / 2)) = - (1 / 2)"
  "binary64 (- (1 / 2) + binary64 (5 / 100)) = - (8106479329266893 / 18014398509481984)"
  by code_simp+


text \<open>
  With throttle scale 0.25 the exact model is idle after 8 ticks; in double arithmetic
  the throttle is then still negative, and the state machine is idle after 9.
\<close>

lemma estop_double_ticks:
  "estop_state (snd (run_ticks_r binary64 8 quarter_demo)) = ES_THROTTLE_NEG_TWO \<and>
   throttle (snd (run_ticks_r binary64 8 quarter_demo)) = - (1 / 72057594037927936) \<and>
   estop_state (snd (run_ticks_r binary64 9 quarter_demo)) = ES_IDLE \<and>
   throttle (snd (run_ticks_r binary64 9 quarter_demo)) = 0"
proof -
  define s3 where "s3 = quarter_demo\<lparr>estop_state := ES_THROTTLE_NEG_TWO, throttle := - (1 / 4)\<rparr>"
  have q: "estop_state quarter_demo = ES_START" "throttle_scale quarter_demo = 1 / 4"
    by (simp_all add: quarter_demo_def emergency_stop_def new_controller_def)
  have three: "snd (run_ticks_r binary64 3 quarter_demo) = s3"
    by (simp only: estop_three_ticks_r [OF q(1)] q(2) double_ramp_values(1) s3_def)
  have st: "estop_state (s3\<lparr>throttle := a\<rparr>) = ES_THROTTLE_NEG_TWO" for a
    by (simp add: s3_def)
  have thr: "throttle (s3\<lparr>throttle := a\<rparr>) = a" for a
    by simp
  have upd: "s3\<lparr>throttle := a, throttle := b\<rparr> = s3\<lparr>throttle := b\<rparr>" for a b
    by simp
  have stay: "snd (run_threaded_r binary64 (s3\<lparr>throttle := a\<rparr>)) = s3\<lparr>throttle := b\<rparr>"
    if "binary64 (a + binary64 (5 / 100)) = b" and "b < 0" for a b
  proof -
    have "binary64 (throttle (s3\<lparr>throttle := a\<rparr>) + binary64 (5 / 100)) = b"
      using that(1) by (simp only: thr)
    from ramp_tick_r [where s = "s3\<lparr>throttle := a\<rparr>" and rnd = binary64 and b = b, OF st this]
      that(2) show ?thesis
      by (simp only: upd) simp
  qed
  have leave: "snd (run_threaded_r binary64 (s3\<lparr>throttle := a\<rparr>))
      = s3\<lparr>throttle := 0, estop_state := ES_IDLE\<rparr>"
    if "binary64 (a + binary64 (5 / 100)) = b" and "0 \<le> b" for a b
  proof -
    have "binary64 (throttle (s3\<lparr>throttle := a\<rparr>) + binary64 (5 / 100)) = b"
      using that(1) by (simp only: thr)
    from ramp_tick_r [where s = "s3\<lparr>throttle := a\<rparr>" and rnd = binary64 and b = b, OF st this]
      that(2) show ?thesis
      by (simp only: upd) simp
  qed
  have t3: "snd (run_ticks_r binary64 3 quarter_demo) = s3\<lparr>throttle := - (1 / 4)\<rparr>"
    by (simp only: three) (simp add: s3_def)
  have "snd (run_ticks_r binary64 (Suc 3) quarter_demo)
      = snd (run_threaded_r binary64 (s3\<lparr>throttle := - (1 / 4)\<rparr>))"
    by (subst run_ticks_r_snd_last) (simp only: t3)
  also have "\<dots> = s3\<lparr>throttle := - (3602879701896397 / 18014398509481984)\<rparr>"
    by (rule stay [OF double_ramp_values(2)]) simp
  finally have t4: "snd (run_ticks_r binary64 (Suc 3) quarter_demo)
      = s3\<lparr>throttle := - (3602879701896397 / 18014398509481984)\<rparr>" .
  have "snd (run_ticks_r binary64 (Suc (Suc 3)) quarter_demo)
      = snd (run_threaded_r binary64 (s3\<lparr>throttle := - (3602879701896397 / 18014398509481984)\<rparr>))"
    by (subst run_ticks_r_snd_last) (simp only: t4)
  also have "\<dots> = s3\<lparr>throttle := - (1351079888211149 / 9007199254740992)\<rparr>"
    by (rule stay [OF double_ramp_values(3)]) simp
  finally have t5: "snd (run_ticks_r binary64 (Suc (Suc 3)) quarter_demo)
      = s3\<lparr>throttle := - (1351079888211149 / 9007199254740992)\<rparr>" .
  have "snd (run_ticks_r binary64 (Suc (Suc (Suc 3))) quarter_demo)
      = snd (run_threaded_r binary64 (s3\<lparr>throttle := - (1351079888211149 / 9007199254740992)\<rparr>))"
    by (subst run_ticks_r_snd_last) (simp only: t5)
  also have "\<dots> = s3\<lparr>throttle := - (7205759403792795 / 72057594037927936)\<rparr>"
    by (rule stay [OF double_ramp_values(4)]) simp
  finally have t6: "snd (run_ticks_r binary64 (Suc (Suc (Suc 3))) quarter_demo)
      = s3\<lparr>throttle := - (7205759403792795 / 72057594037927936)\<rparr>" .
  have "snd (run_ticks_r binary64 (Suc (Suc (Suc (Suc 3)))) quarter_demo)
      = snd (run_threaded_r binary64 (s3\<lparr>throttle := - (7205759403792795 / 72057594037927936)\<rparr>))"
    by (subst run_ticks_r_snd_last) (simp only: t6)
  also have "\<dots> = s3\<lparr>throttle := - (1801439850948199 / 36028797018963968)\<rparr>"
    by (rule stay [OF double_ramp_values(5)]) simp
  finally have t7: "snd (run_ticks_r binary64 (Suc (Suc (Suc (Suc 3)))) quarter_demo)
      = s3\<lparr>throttle := - (1801439850948199 / 36028797018963968)\<rparr>" .
  have "snd (run_ticks_r binary64 (Suc (Suc (Suc (Suc (Suc 3))))) quarter_demo)
      = snd (run_threaded_r binary64 (s3\<lparr>throttle := - (1801439850948199 / 36028797018963968)\<rparr>))"
    by (subst run_ticks_r_snd_last) (simp only: t7)
  also have "\<dots> = s3\<lparr>throttle := - (1 / 72057594037927936)\<rparr>"
    by (rule stay [OF double_ramp_values(6)]) simp
  finally have t8: "snd (run_ticks_r binary64 (Suc (Suc (Suc (Suc (Suc 3))))) quarter_demo)
      = s3\<lparr>throttle := - (1 / 72057594037927936)\<rparr>" .
  have "snd (run_ticks_r binary64 (Suc (Suc (Suc (Suc (Suc (Suc 3)))))) quarter_demo)
      = snd (run_threaded_r binary64 (s3\<lparr>throttle := - (1 / 72057594037927936)\<rparr>))"
    by (subst run_ticks_r_snd_last) (simp only: t8)
  also have "\<dots> = s3\<lparr>throttle := 0, estop_state := ES_IDLE\<rparr>"
    by (rule leave [OF double_ramp_values(7)]) simp
  finally have t9: "snd (run_ticks_r binary64 (Suc (Suc (Suc (Suc (Suc (Suc 3)))))) quarter_demo)
      = s3\<lparr>throttle := 0, estop_state := ES_IDLE\<rparr>" .
  have n8: "(8::nat) = Suc (Suc (Suc (Suc (Suc 3))))" and n9: "(9::nat) = Suc (Suc (Suc (Suc (Suc (Suc 3)))))"
    by simp_all
  show ?thesis
    unfolding n8 n9 t8 t9 by (simp add: s3_def)
qed

lemma estop_exact_ticks_quarter:
  "estop_state (snd (run_ticks 7 quarter_demo)) = ES_THROTTLE_NEG_TWO \<and>
   estop_state (snd (run_ticks 8 quarter_demo)) = ES_IDLE"
  by (simp add: quarter_demo_def emergency_stop_def new_controller_def eval_nat_numeral
      run_threaded_exact Let_def)

subsection \<open>Reaching the idle state\<close>




section \<open>The throttle pulse at rest\<close>

text \<open>
  With float operations taken as exact, a throttle of 0 is mapped to \<open>zero_pulse\<close>
  whenever \<open>min_pulse\<close> and \<open>zero_pulse\<close> differ, in either order.
\<close>

lemma throttle_zero_exact:
  assumes "min_pulse t \<noteq> zero_pulse t"
  shows "throttle_run_threaded t 0 = Inr (t\<lparr>pulse := zero_pulse t\<rparr>)"
  using assms by (simp add: throttle_run_threaded_exact map_range_exact MIN_THROTTLE_def Let_def)

lemma wide_throttle_reverse_range:
  "map_range_r binary64 0 (- 1) 0 0 93 = Inr 92"
  by code_simp

text \<open>
  Claim C4 says that for all integer bounds \<open>min_pulse \<le> zero_pulse \<le> max_pulse\<close> a
  throttle of 0 sets the pulse to \<open>zero_pulse\<close>. The code does not achieve it at two
  kinds of such bounds. With the bounds 0, 93 and 180, in double arithmetic, the pulse
  becomes 92: \<open>1 / (1 / 93)\<close> is rounded to a double below 93 and then floored. With
  \<open>min_pulse = zero_pulse\<close> the call raises \<^verbatim>\<open>ZeroDivisionError\<close> and sets no
  pulse, in the exact model and in double arithmetic.
\<close>

theorem throttle_zero_pulse_missed:
  "min_pulse wide_throttle \<le> zero_pulse wide_throttle \<and>
   zero_pulse wide_throttle \<le> max_pulse wide_throttle \<and>
   zero_pulse wide_throttle = 93 \<and>
   throttle_run_threaded_r binary64 wide_throttle 0 = Inr (wide_throttle\<lparr>pulse := 92\<rparr>) \<and>
   min_pulse no_reverse_throttle \<le> zero_pulse no_reverse_throttle \<and>
   zero_pulse no_reverse_throttle \<le> max_pulse no_reverse_throttle \<and>
   throttle_run_threaded no_reverse_throttle 0 = Inl ZeroDivisionError \<and>
   throttle_run_threaded_r binary64 no_reverse_throttle 0 = Inl ZeroDivisionError"
proof -
  have w: "throttle_run_threaded_r binary64 wide_throttle 0 = Inr (wide_throttle\<lparr>pulse := 92\<rparr>)"
    by (simp add: throttle_run_threaded_r_def wide_throttle_def MIN_THROTTLE_def
        wide_throttle_reverse_range)
  have n: "throttle_run_threaded no_reverse_throttle 0 = Inl ZeroDivisionError"
    "throttle_run_threaded_r binary64 no_reverse_throttle 0 = Inl ZeroDivisionError"
    by (simp_all add: throttle_run_threaded_exact throttle_run_threaded_r_def
        no_reverse_throttle_def MIN_THROTTLE_def map_range_exact map_range_r_def binary64_0)
  show ?thesis
    using w n by (simp add: wide_throttle_def no_reverse_throttle_def)
qed

end
